theory Spec2Isabelle
  imports Complex_Main
begin

section \<open>Monoid metrics of \<^verbatim>\<open>lale/lib/rasl/metrics.py\<close>\<close>

text \<open>
  The module scores predictions through monoids: a batch is lifted to a small value of
  partial statistics (\<^verbatim>\<open>to_monoid\<close>), values are combined pairwise, and the combined
  value is converted into the score (\<^verbatim>\<open>from_monoid\<close>). This theory embeds the module's
  classes and functions and states the properties of its specification about them.
\<close>

subsection \<open>Exceptions\<close>

text \<open>
  Every exception the module can raise is a value. \<open>AssertionError\<close> comes from the
  \<^verbatim>\<open>assert\<close> statements, \<open>TypeError\<close> from \<^verbatim>\<open>functools.reduce\<close> on an empty iterable
  without an initial value, \<open>OverflowError\<close> from converting a Python \<^verbatim>\<open>int\<close> beyond the
  range of a double. \<open>Raised\<close> stands for whatever an external collaborator (pandas, the
  relational pipeline, the estimator) raises; it propagates unchanged.
\<close>

datatype error = AssertionError | TypeError | OverflowError | Raised string

subsection \<open>Double-precision values\<close>

text \<open>
  A \<^verbatim>\<open>float\<close> or \<^verbatim>\<open>np.float64\<close> is not-a-number, an infinity, a zero (both carry a sign
  bit, \<open>True\<close> for negative) or a finite non-zero number. The rounding of an exact non-zero
  result to the nearest double is hardware arithmetic outside the module; it is the
  parameter \<open>rnd\<close> of every operation (it answers \<open>Infty\<close> on overflow and \<open>Zero\<close> on
  underflow). What the operations do at the special values is written out, since that is
  where numpy and Python differ: numpy's scalar division does not raise on a zero divisor
  (in numpy's default error state it warns and returns an infinity or not-a-number).
\<close>

datatype float64 = NaN | Infty bool | Zero bool | Fin real

fun fneg :: "float64 \<Rightarrow> float64" where
  "fneg NaN = NaN"
| "fneg (Infty s) = Infty (\<not> s)"
| "fneg (Zero s) = Zero (\<not> s)"
| "fneg (Fin r) = Fin (- r)"

fun fadd :: "(real \<Rightarrow> float64) \<Rightarrow> float64 \<Rightarrow> float64 \<Rightarrow> float64" where
  "fadd rnd NaN _ = NaN"
| "fadd rnd _ NaN = NaN"
| "fadd rnd (Infty s) (Infty t) = (if s = t then Infty s else NaN)"
| "fadd rnd (Infty s) _ = Infty s"
| "fadd rnd _ (Infty t) = Infty t"
| "fadd rnd (Zero s) (Zero t) = Zero (s \<and> t)"
| "fadd rnd (Zero s) (Fin b) = Fin b"
| "fadd rnd (Fin a) (Zero t) = Fin a"
| "fadd rnd (Fin a) (Fin b) = (if a + b = 0 then Zero False else rnd (a + b))"

definition fsub :: "(real \<Rightarrow> float64) \<Rightarrow> float64 \<Rightarrow> float64 \<Rightarrow> float64" where
  "fsub rnd a b = fadd rnd a (fneg b)"

fun fmul :: "(real \<Rightarrow> float64) \<Rightarrow> float64 \<Rightarrow> float64 \<Rightarrow> float64" where
  "fmul rnd NaN _ = NaN"
| "fmul rnd _ NaN = NaN"
| "fmul rnd (Infty s) (Infty t) = Infty (s \<noteq> t)"
| "fmul rnd (Infty s) (Zero t) = NaN"
| "fmul rnd (Infty s) (Fin b) = Infty (s \<noteq> (b < 0))"
| "fmul rnd (Zero s) (Infty t) = NaN"
| "fmul rnd (Zero s) (Zero t) = Zero (s \<noteq> t)"
| "fmul rnd (Zero s) (Fin b) = Zero (s \<noteq> (b < 0))"
| "fmul rnd (Fin a) (Infty t) = Infty ((a < 0) \<noteq> t)"
| "fmul rnd (Fin a) (Zero t) = Zero ((a < 0) \<noteq> t)"
| "fmul rnd (Fin a) (Fin b) = rnd (a * b)"

text \<open>numpy's division: a zero divisor gives an infinity or not-a-number, never an exception.\<close>

fun fdiv :: "(real \<Rightarrow> float64) \<Rightarrow> float64 \<Rightarrow> float64 \<Rightarrow> float64" where
  "fdiv rnd NaN _ = NaN"
| "fdiv rnd _ NaN = NaN"
| "fdiv rnd (Infty s) (Infty t) = NaN"
| "fdiv rnd (Infty s) (Zero t) = Infty (s \<noteq> t)"
| "fdiv rnd (Infty s) (Fin b) = Infty (s \<noteq> (b < 0))"
| "fdiv rnd (Zero s) (Infty t) = Zero (s \<noteq> t)"
| "fdiv rnd (Zero s) (Zero t) = NaN"
| "fdiv rnd (Zero s) (Fin b) = Zero (s \<noteq> (b < 0))"
| "fdiv rnd (Fin a) (Infty t) = Zero ((a < 0) \<noteq> t)"
| "fdiv rnd (Fin a) (Zero t) = Infty ((a < 0) \<noteq> t)"
| "fdiv rnd (Fin a) (Fin b) = rnd (a / b)"

text \<open>
  \<^verbatim>\<open>np.float64(k)\<close> for a Python \<^verbatim>\<open>int\<close>: zero becomes \<open>+0.0\<close>, an integer that rounds
  beyond the largest double raises \<^verbatim>\<open>OverflowError\<close>. The same conversion happens to an
  \<^verbatim>\<open>int\<close> operand of an arithmetic operation with an \<^verbatim>\<open>np.float64\<close>.
\<close>

definition np_float64 :: "(real \<Rightarrow> float64) \<Rightarrow> int \<Rightarrow> error + float64" where
  "np_float64 rnd k =
     (if k = 0 then Inr (Zero False)
      else (case rnd (of_int k) of Infty s \<Rightarrow> Inl OverflowError | f \<Rightarrow> Inr f))"

subsection \<open>Python numbers\<close>

text \<open>
  The fields of a monoid value hold whatever the aggregation returned: Python \<^verbatim>\<open>int\<close>s
  for integer labels, floats for float labels (the annotations of the constructors are
  not checked). A number is one or the other. \<^verbatim>\<open>int\<close> arithmetic is exact and unbounded;
  float arithmetic rounds and never raises; an \<^verbatim>\<open>int\<close> that meets a float is converted
  first, which raises \<^verbatim>\<open>OverflowError\<close> when it is beyond the range of a double.
\<close>

datatype pynum = PyInt int | PyFloat float64

text \<open>
  \<open>as_float64\<close> is \<^verbatim>\<open>np.float64(x)\<close>, and the conversion of the other operand of an
  operation with an \<^verbatim>\<open>np.float64\<close>. \<open>overflows\<close> says when it raises.
\<close>

definition as_float64 :: "(real \<Rightarrow> float64) \<Rightarrow> pynum \<Rightarrow> error + float64" where
  "as_float64 rnd x = (case x of PyInt k \<Rightarrow> np_float64 rnd k | PyFloat f \<Rightarrow> Inr f)"


fun py_add :: "(real \<Rightarrow> float64) \<Rightarrow> pynum \<Rightarrow> pynum \<Rightarrow> error + pynum" where
  "py_add rnd (PyInt a) (PyInt b) = Inr (PyInt (a + b))"
| "py_add rnd (PyFloat x) (PyFloat y) = Inr (PyFloat (fadd rnd x y))"
| "py_add rnd (PyInt a) (PyFloat y) =
     (case np_float64 rnd a of Inl e \<Rightarrow> Inl e | Inr x \<Rightarrow> Inr (PyFloat (fadd rnd x y)))"
| "py_add rnd (PyFloat x) (PyInt b) =
     (case np_float64 rnd b of Inl e \<Rightarrow> Inl e | Inr y \<Rightarrow> Inr (PyFloat (fadd rnd x y)))"

fun py_mul :: "(real \<Rightarrow> float64) \<Rightarrow> pynum \<Rightarrow> pynum \<Rightarrow> error + pynum" where
  "py_mul rnd (PyInt a) (PyInt b) = Inr (PyInt (a * b))"
| "py_mul rnd (PyFloat x) (PyFloat y) = Inr (PyFloat (fmul rnd x y))"
| "py_mul rnd (PyInt a) (PyFloat y) =
     (case np_float64 rnd a of Inl e \<Rightarrow> Inl e | Inr x \<Rightarrow> Inr (PyFloat (fmul rnd x y)))"
| "py_mul rnd (PyFloat x) (PyInt b) =
     (case np_float64 rnd b of Inl e \<Rightarrow> Inl e | Inr y \<Rightarrow> Inr (PyFloat (fmul rnd x y)))"

text \<open>The real number a double stands for (\<open>0\<close> at the values that stand for none).\<close>

fun fval :: "float64 \<Rightarrow> real" where
  "fval (Fin r) = r"
| "fval _ = 0"

fun is_finite :: "float64 \<Rightarrow> bool" where
  "is_finite (Fin r) = True"
| "is_finite (Zero s) = True"
| "is_finite _ = False"

text \<open>
  Rounding to the nearest double, on the reals where it is simple to say what it does: a
  real of magnitude \<open>2 ^ 1024\<close> or more overflows to the infinity of its sign, and a real
  that a double represents exactly (a small integer, a dyadic fraction) stays as it is.
  \<open>exact\<close> leaves every real below the overflow threshold as it is, so it agrees with the
  hardware on those two kinds of reals; it serves to evaluate the model at inputs whose
  intermediate results are all of these kinds.
\<close>

definition exact :: "real \<Rightarrow> float64" where
  "exact r = (if r = 0 then Zero False else if 2 ^ 1024 \<le> \<bar>r\<bar> then Infty (r < 0) else Fin r)"

text \<open>A toy rounding to the nearest multiple of one eighth, to exercise inexact sums.\<close>

definition eighths :: "real \<Rightarrow> float64" where
  "eighths r = (let k = \<lfloor>r * 8 + 1 / 2\<rfloor> in if k = 0 then Zero (r < 0) else Fin (of_int k / 8))"

subsection \<open>Rounding error of an addition\<close>

text \<open>
  \<open>add_within u rnd x y\<close>: the sum \<open>x + y\<close> is a finite double whose value is within the
  relative error \<open>u\<close> of the exact sum. This is the standard model of floating-point
  addition; hardware addition satisfies it with \<open>u = 2 ^ -53\<close> for finite operands unless
  the sum overflows. It fails when an operand is not-a-number or infinite, since then the
  sum is not finite.
\<close>

definition add_within :: "real \<Rightarrow> (real \<Rightarrow> float64) \<Rightarrow> float64 \<Rightarrow> float64 \<Rightarrow> bool" where
  "add_within u rnd x y =
     (is_finite (fadd rnd x y)
      \<and> \<bar>fval (fadd rnd x y) - (fval x + fval y)\<bar> \<le> u * \<bar>fval x + fval y\<bar>)"

text \<open>The four additions of the two groupings of \<open>x + y + z\<close> all round within \<open>u\<close>.\<close>

definition reassoc_within ::
  "real \<Rightarrow> (real \<Rightarrow> float64) \<Rightarrow> float64 \<Rightarrow> float64 \<Rightarrow> float64 \<Rightarrow> bool" where
  "reassoc_within u rnd x y z =
     (0 \<le> u \<and> add_within u rnd x y \<and> add_within u rnd (fadd rnd x y) z
      \<and> add_within u rnd y z \<and> add_within u rnd x (fadd rnd y z))"

text \<open>The tolerance for the two groupings, and closeness of two doubles within a tolerance.\<close>

definition reassoc_tol :: "real \<Rightarrow> float64 \<Rightarrow> float64 \<Rightarrow> float64 \<Rightarrow> real" where
  "reassoc_tol u x y z = 2 * (2 * u + u\<^sup>2) * (\<bar>fval x\<bar> + \<bar>fval y\<bar> + \<bar>fval z\<bar>)"

definition close_to :: "real \<Rightarrow> float64 \<Rightarrow> float64 \<Rightarrow> bool" where
  "close_to tol p q = (is_finite p \<and> is_finite q \<and> \<bar>fval p - fval q\<bar> \<le> tol)"

text \<open>
  The same for the three values of one field of three monoid values, which are Python
  numbers: three \<^verbatim>\<open>int\<close>s add exactly, so they need no proviso and get the tolerance
  \<open>0\<close>; three floats need the proviso above and get the tolerance above. Two results agree
  when they are the same \<^verbatim>\<open>int\<close>, or floats that are close.
\<close>

fun same_kind :: "pynum \<Rightarrow> pynum \<Rightarrow> pynum \<Rightarrow> bool" where
  "same_kind (PyInt a) (PyInt b) (PyInt c) = True"
| "same_kind (PyFloat x) (PyFloat y) (PyFloat z) = True"
| "same_kind _ _ _ = False"

fun field_within :: "real \<Rightarrow> (real \<Rightarrow> float64) \<Rightarrow> pynum \<Rightarrow> pynum \<Rightarrow> pynum \<Rightarrow> bool" where
  "field_within u rnd (PyInt a) (PyInt b) (PyInt c) = True"
| "field_within u rnd (PyFloat x) (PyFloat y) (PyFloat z) = reassoc_within u rnd x y z"
| "field_within u rnd _ _ _ = False"

fun field_tol :: "real \<Rightarrow> pynum \<Rightarrow> pynum \<Rightarrow> pynum \<Rightarrow> real" where
  "field_tol u (PyFloat x) (PyFloat y) (PyFloat z) = reassoc_tol u x y z"
| "field_tol u _ _ _ = 0"

fun py_close :: "real \<Rightarrow> pynum \<Rightarrow> pynum \<Rightarrow> bool" where
  "py_close tol (PyInt a) (PyInt b) = (a = b)"
| "py_close tol (PyFloat x) (PyFloat y) = close_to tol x y"
| "py_close tol _ _ = False"

subsection \<open>Monoid values\<close>

text \<open>
  \<^verbatim>\<open>_AccuracyData\<close> holds \<^verbatim>\<open>_match\<close> and \<^verbatim>\<open>_total\<close>, Python integers (a sum of 0/1
  values and a count). \<^verbatim>\<open>_R2Data\<close> holds \<^verbatim>\<open>_n\<close>, \<^verbatim>\<open>_sum\<close>, \<^verbatim>\<open>_sum_sq\<close> and
  \<^verbatim>\<open>_res_sum_sq\<close>, each a Python number: all \<^verbatim>\<open>int\<close>s for integer labels, all floats for
  float labels. The fields carry the class as a prefix (\<open>total\<close> and \<open>sum\<close> are constants of
  HOL).
\<close>

record AccuracyData =
  acc_match :: int
  acc_total :: int

record R2Data =
  r2_n :: pynum
  r2_sum :: pynum
  r2_sum_sq :: pynum
  r2_res_sum_sq :: pynum

definition AccuracyData_combine :: "AccuracyData \<Rightarrow> AccuracyData \<Rightarrow> AccuracyData" where
  "AccuracyData_combine self other =
     \<lparr>acc_match = acc_match self + acc_match other, acc_total = acc_total self + acc_total other\<rparr>"

text \<open>
  \<^verbatim>\<open>_R2Data.combine\<close> adds field by field, in the order of the keyword arguments; an
  addition of an \<^verbatim>\<open>int\<close> and a float can raise.
\<close>

definition R2Data_combine :: "(real \<Rightarrow> float64) \<Rightarrow> R2Data \<Rightarrow> R2Data \<Rightarrow> error + R2Data" where
  "R2Data_combine rnd self other =
     (case py_add rnd (r2_n self) (r2_n other) of
        Inl e \<Rightarrow> Inl e
      | Inr k \<Rightarrow>
          (case py_add rnd (r2_sum self) (r2_sum other) of
             Inl e \<Rightarrow> Inl e
           | Inr s \<Rightarrow>
               (case py_add rnd (r2_sum_sq self) (r2_sum_sq other) of
                  Inl e \<Rightarrow> Inl e
                | Inr s2 \<Rightarrow>
                    (case py_add rnd (r2_res_sum_sq self) (r2_res_sum_sq other) of
                       Inl e \<Rightarrow> Inl e
                     | Inr e2 \<Rightarrow>
                         Inr \<lparr>r2_n = k, r2_sum = s, r2_sum_sq = s2, r2_res_sum_sq = e2\<rparr>))))"

text \<open>The two groupings: \<^verbatim>\<open>a.combine(b).combine(c)\<close> and \<^verbatim>\<open>a.combine(b.combine(c))\<close>.\<close>

definition combine_left :: "(real \<Rightarrow> float64) \<Rightarrow> R2Data \<Rightarrow> R2Data \<Rightarrow> R2Data \<Rightarrow> error + R2Data" where
  "combine_left rnd a b c =
     (case R2Data_combine rnd a b of Inl e \<Rightarrow> Inl e | Inr ab \<Rightarrow> R2Data_combine rnd ab c)"

definition combine_right :: "(real \<Rightarrow> float64) \<Rightarrow> R2Data \<Rightarrow> R2Data \<Rightarrow> R2Data \<Rightarrow> error + R2Data" where
  "combine_right rnd a b c =
     (case R2Data_combine rnd b c of Inl e \<Rightarrow> Inl e | Inr bc \<Rightarrow> R2Data_combine rnd a bc)"

text \<open>The invariant the specification gives for accuracy values.\<close>

definition acc_inv :: "AccuracyData \<Rightarrow> bool" where
  "acc_inv v = (0 \<le> acc_match v \<and> acc_match v \<le> acc_total v)"

subsection \<open>Conversion to the score\<close>

text \<open>
  \<^verbatim>\<open>_Accuracy.from_monoid\<close> is \<^verbatim>\<open>float(v._match / np.float64(v._total))\<close>: the total is
  converted, then the division is numpy's, with the integer numerator converted too.
\<close>

definition Accuracy_from_monoid :: "(real \<Rightarrow> float64) \<Rightarrow> AccuracyData \<Rightarrow> error + float64" where
  "Accuracy_from_monoid rnd v =
     (case np_float64 rnd (acc_total v) of
        Inl e \<Rightarrow> Inl e
      | Inr t \<Rightarrow>
          (case np_float64 rnd (acc_match v) of
             Inl e \<Rightarrow> Inl e
           | Inr m \<Rightarrow> Inr (fdiv rnd m t)))"

text \<open>
  \<^verbatim>\<open>_R2.from_monoid\<close>:
  \<^verbatim>\<open>ss_tot = v._sum_sq - (v._sum * v._sum / np.float64(v._n))\<close>, then
  \<^verbatim>\<open>1 - float(v._res_sum_sq / ss_tot)\<close>. The product is Python's (exact for an
  \<^verbatim>\<open>int\<close>); the count is converted; the quotient, the difference and the second quotient
  each have an \<^verbatim>\<open>np.float64\<close> on the right, so they are numpy's and convert their left
  operand. \<open>ss_tot\<close> is the local variable.
\<close>

definition ss_tot :: "(real \<Rightarrow> float64) \<Rightarrow> R2Data \<Rightarrow> error + float64" where
  "ss_tot rnd v =
     (case py_mul rnd (r2_sum v) (r2_sum v) of
        Inl e \<Rightarrow> Inl e
      | Inr sq \<Rightarrow>
          (case as_float64 rnd (r2_n v) of
             Inl e \<Rightarrow> Inl e
           | Inr nf \<Rightarrow>
               (case as_float64 rnd sq of
                  Inl e \<Rightarrow> Inl e
                | Inr sqf \<Rightarrow>
                    (case as_float64 rnd (r2_sum_sq v) of
                       Inl e \<Rightarrow> Inl e
                     | Inr s2 \<Rightarrow> Inr (fsub rnd s2 (fdiv rnd sqf nf))))))"

definition R2_from_monoid :: "(real \<Rightarrow> float64) \<Rightarrow> R2Data \<Rightarrow> error + float64" where
  "R2_from_monoid rnd v =
     (case ss_tot rnd v of
        Inl e \<Rightarrow> Inl e
      | Inr t \<Rightarrow>
          (case as_float64 rnd (r2_res_sum_sq v) of
             Inl e \<Rightarrow> Inl e
           | Inr rs \<Rightarrow> Inr (fsub rnd (Fin 1) (fdiv rnd rs t))))"

subsection \<open>Batches and the external collaborators\<close>

text \<open>
  Python passes any object where the annotations say \<^verbatim>\<open>pd.Series\<close> or \<^verbatim>\<open>np.ndarray\<close>,
  and the assertions of \<^verbatim>\<open>to_monoid\<close> tell the cases apart: \<^verbatim>\<open>None\<close>, a series, a numpy
  array, or an object of another class. The contents of a series (\<open>'s\<close>), an array (\<open>'a\<close>)
  and a data frame (\<open>'x\<close>) are only ever handed to pandas and to the relational pipeline,
  so their types stay open.
\<close>

datatype ('s, 'a) pyval = PNone | PSeries 's | PNdArray 'a | PObject

type_synonym ('s, 'a, 'x) batch_yyX = "('s, 'a) pyval \<times> ('s, 'a) pyval \<times> 'x option"

text \<open>
  The collaborators the module calls but does not define:
  \<^item> \<open>pd_Series arr y_true\<close> is \<^verbatim>\<open>pd.Series(arr, y_true.index, y_true.dtype, "y_pred")\<close>;
  \<^item> \<open>accuracy_pipeline y_true y_pred\<close> is the first row of the aggregation that
    \<^verbatim>\<open>_Accuracy\<close> builds from \<^verbatim>\<open>Scan\<close>, \<^verbatim>\<open>Map\<close>, \<^verbatim>\<open>ConcatFeatures\<close> and \<^verbatim>\<open>Aggregate\<close>,
    the columns \<^verbatim>\<open>match\<close> and \<^verbatim>\<open>total\<close>;
  \<^item> \<open>r2_pipeline y_true y_pred\<close> is the first row of the aggregation of \<^verbatim>\<open>_R2\<close>, the
    columns \<^verbatim>\<open>n\<close>, \<^verbatim>\<open>sum\<close>, \<^verbatim>\<open>sum_sq\<close> and \<^verbatim>\<open>res_sum_sq\<close>.
  Each may raise.
\<close>

record ('s, 'a) collaborators =
  pd_Series :: "'a \<Rightarrow> 's \<Rightarrow> error + 's"
  accuracy_pipeline :: "'s \<Rightarrow> 's \<Rightarrow> error + int \<times> int"
  r2_pipeline :: "'s \<Rightarrow> 's \<Rightarrow> error + pynum \<times> pynum \<times> pynum \<times> pynum"

text \<open>A trained operator is an object with a \<^verbatim>\<open>predict\<close> method, which may raise.\<close>

record ('s, 'a, 'x) TrainedOperator =
  predict :: "'x \<Rightarrow> error + ('s, 'a) pyval"

subsection \<open>Lifting a batch\<close>

text \<open>
  \<^verbatim>\<open>_Accuracy.to_monoid\<close> and \<^verbatim>\<open>_R2.to_monoid\<close> share their first lines: unpack the
  batch, assert that neither label argument is \<^verbatim>\<open>None\<close> and that \<^verbatim>\<open>y_true\<close> is a series,
  wrap an array \<^verbatim>\<open>y_pred\<close> into a series over the index of \<^verbatim>\<open>y_true\<close>, assert that
  \<^verbatim>\<open>y_pred\<close> is a series by now. \<open>aligned_labels\<close> is that common part; it answers the
  two series, which each class then sends through its own pipeline.
\<close>

definition aligned_labels ::
  "('s, 'a) collaborators \<Rightarrow> ('s, 'a, 'x) batch_yyX \<Rightarrow> error + 's \<times> 's" where
  "aligned_labels env batch =
     (case batch of (y_true, y_pred, _) \<Rightarrow>
        if y_true = PNone \<or> y_pred = PNone then Inl AssertionError
        else (case y_true of
                PSeries yt \<Rightarrow>
                  (case (case y_pred of
                           PNdArray arr \<Rightarrow>
                             (case pd_Series env arr yt of
                                Inl e \<Rightarrow> Inl e
                              | Inr s \<Rightarrow> Inr (PSeries s))
                         | _ \<Rightarrow> Inr y_pred) of
                     Inl e \<Rightarrow> Inl e
                   | Inr (PSeries yp) \<Rightarrow> Inr (yt, yp)
                   | Inr _ \<Rightarrow> Inl AssertionError)
              | _ \<Rightarrow> Inl AssertionError))"

definition Accuracy_to_monoid ::
  "('s, 'a) collaborators \<Rightarrow> ('s, 'a, 'x) batch_yyX \<Rightarrow> error + AccuracyData" where
  "Accuracy_to_monoid env batch =
     (case aligned_labels env batch of
        Inl e \<Rightarrow> Inl e
      | Inr (yt, yp) \<Rightarrow>
          (case accuracy_pipeline env yt yp of
             Inl e \<Rightarrow> Inl e
           | Inr (m, t) \<Rightarrow> Inr \<lparr>acc_match = m, acc_total = t\<rparr>))"

definition R2_to_monoid ::
  "('s, 'a) collaborators \<Rightarrow> ('s, 'a, 'x) batch_yyX \<Rightarrow> error + R2Data" where
  "R2_to_monoid env batch =
     (case aligned_labels env batch of
        Inl e \<Rightarrow> Inl e
      | Inr (yt, yp) \<Rightarrow>
          (case r2_pipeline env yt yp of
             Inl e \<Rightarrow> Inl e
           | Inr (k, s, s2, e2) \<Rightarrow>
               Inr \<lparr>r2_n = k, r2_sum = s, r2_sum_sq = s2, r2_res_sum_sq = e2\<rparr>))"

subsection \<open>The factory classes\<close>

text \<open>
  An instance of \<^verbatim>\<open>MetricMonoidFactory\<close> is a record of its methods: the abstract ones
  (\<^verbatim>\<open>to_monoid\<close>, \<^verbatim>\<open>from_monoid\<close>, \<^verbatim>\<open>score_data\<close>, \<^verbatim>\<open>score_estimator\<close>) are fields, filled by
  the subclass; \<^verbatim>\<open>a.combine(b)\<close> dispatches on the class of the monoid values the factory
  makes, so the record carries that method as \<open>combine\<close> (it may raise). The methods the base class
  defines itself (\<^verbatim>\<open>__call__\<close>, \<^verbatim>\<open>score_data_batched\<close>, \<^verbatim>\<open>score_estimator_batched\<close>) are
  functions of the record, written in terms of the fields as the source writes them in
  terms of \<^verbatim>\<open>self\<close>.
\<close>

record ('m, 's, 'a, 'x) MetricMonoidFactory =
  to_monoid :: "('s, 'a, 'x) batch_yyX \<Rightarrow> error + 'm"
  from_monoid :: "'m \<Rightarrow> error + float64"
  combine :: "'m \<Rightarrow> 'm \<Rightarrow> error + 'm"
  score_data :: "('s, 'a) pyval \<Rightarrow> ('s, 'a) pyval \<Rightarrow> 'x option \<Rightarrow> error + float64"
  score_estimator ::
    "('s, 'a, 'x) TrainedOperator \<Rightarrow> 'x \<Rightarrow> ('s, 'a) pyval \<Rightarrow> error + float64"

definition call ::
  "('m, 's, 'a, 'x) MetricMonoidFactory \<Rightarrow> ('s, 'a, 'x) TrainedOperator \<Rightarrow> 'x \<Rightarrow>
   ('s, 'a) pyval \<Rightarrow> error + float64" where
  "call self estimator X y = score_estimator self estimator X y"

text \<open>
  \<^verbatim>\<open>functools.reduce(lambda a, b: a.combine(b), lifted_batches)\<close> over the generator
  \<^verbatim>\<open>(self.to_monoid(b) for b in batches)\<close>: the generator lifts a batch only when
  \<^verbatim>\<open>reduce\<close> asks for the next value, so lifting and combining alternate and the first
  batch that fails to lift, or to combine, ends the fold. \<open>reduce_lifted\<close> is the loop of \<^verbatim>\<open>reduce\<close> once
  it holds an accumulator; with no first value \<^verbatim>\<open>reduce\<close> raises \<^verbatim>\<open>TypeError\<close>.
\<close>

fun reduce_lifted ::
  "('b \<Rightarrow> error + 'm) \<Rightarrow> ('m \<Rightarrow> 'm \<Rightarrow> error + 'm) \<Rightarrow> 'm \<Rightarrow> 'b list \<Rightarrow> error + 'm" where
  "reduce_lifted lift cmb acc [] = Inr acc"
| "reduce_lifted lift cmb acc (b # bs) =
     (case lift b of
        Inl e \<Rightarrow> Inl e
      | Inr m \<Rightarrow>
          (case cmb acc m of
             Inl e \<Rightarrow> Inl e
           | Inr acc' \<Rightarrow> reduce_lifted lift cmb acc' bs))"

definition score_data_batched ::
  "('m, 's, 'a, 'x) MetricMonoidFactory \<Rightarrow> ('s, 'a, 'x) batch_yyX list \<Rightarrow> error + float64" where
  "score_data_batched self batches =
     (case batches of
        [] \<Rightarrow> Inl TypeError
      | b # bs \<Rightarrow>
          (case to_monoid self b of
             Inl e \<Rightarrow> Inl e
           | Inr m \<Rightarrow>
               (case reduce_lifted (to_monoid self) (combine self) m bs of
                  Inl e \<Rightarrow> Inl e
                | Inr combined \<Rightarrow> from_monoid self combined)))"

text \<open>
  \<^verbatim>\<open>_MetricMonoidMixin\<close> fills \<^verbatim>\<open>score_data\<close> and \<^verbatim>\<open>score_estimator\<close> from the other two
  methods; \<^verbatim>\<open>score_estimator\<close> predicts first and passes no \<^verbatim>\<open>X\<close> on.
\<close>

definition MetricMonoidMixin ::
  "(('s, 'a, 'x) batch_yyX \<Rightarrow> error + 'm) \<Rightarrow> ('m \<Rightarrow> error + float64) \<Rightarrow>
   ('m \<Rightarrow> 'm \<Rightarrow> error + 'm) \<Rightarrow>
   ('m, 's, 'a, 'x) MetricMonoidFactory" where
  "MetricMonoidMixin lift conv cmb =
     (let sd = (\<lambda>y_true y_pred X.
                  case lift (y_true, y_pred, X) of Inl e \<Rightarrow> Inl e | Inr m \<Rightarrow> conv m)
      in \<lparr>to_monoid = lift, from_monoid = conv, combine = cmb,
          score_data = sd,
          score_estimator = (\<lambda>estimator X y.
             case predict estimator X of
               Inl e \<Rightarrow> Inl e
             | Inr y_pred \<Rightarrow> sd y y_pred None)\<rparr>)"

definition Accuracy ::
  "(real \<Rightarrow> float64) \<Rightarrow> ('s, 'a) collaborators \<Rightarrow> (AccuracyData, 's, 'a, 'x) MetricMonoidFactory" where
  "Accuracy rnd env =
     MetricMonoidMixin (Accuracy_to_monoid env) (Accuracy_from_monoid rnd)
       (\<lambda>self other. Inr (AccuracyData_combine self other))"

definition R2 ::
  "(real \<Rightarrow> float64) \<Rightarrow> ('s, 'a) collaborators \<Rightarrow> (R2Data, 's, 'a, 'x) MetricMonoidFactory" where
  "R2 rnd env = MetricMonoidMixin (R2_to_monoid env) (R2_from_monoid rnd) (R2Data_combine rnd)"

subsection \<open>The scorer registry\<close>

text \<open>
  \<^verbatim>\<open>_scorer_cache\<close> is a module-level dictionary from a metric name to \<^verbatim>\<open>None\<close> or to a
  factory object. Whether two calls return the very same object is a question of identity,
  so objects live in a heap (the list of the classes of the objects built so far, an
  object's reference being its position) and the dictionary holds references.
\<close>

datatype scorer_class = Accuracy_class | R2_class

record module_state =
  scorer_cache :: "string \<rightharpoonup> nat option"
  heap :: "scorer_class list"

definition initial_state :: module_state where
  "initial_state =
     \<lparr>scorer_cache = [''accuracy'' \<mapsto> None, ''r2'' \<mapsto> None], heap = []\<rparr>"

text \<open>Building an object and storing it under \<open>scoring\<close>: \<^verbatim>\<open>_scorer_cache[scoring] = C()\<close>.\<close>

definition store_new :: "string \<Rightarrow> scorer_class \<Rightarrow> module_state \<Rightarrow> module_state" where
  "store_new scoring c s =
     \<lparr>scorer_cache = (scorer_cache s)(scoring \<mapsto> Some (length (heap s))), heap = heap s @ [c]\<rparr>"

definition get_scorer :: "string \<Rightarrow> module_state \<Rightarrow> (error + nat) \<times> module_state" where
  "get_scorer scoring s =
     (case scorer_cache s scoring of
        None \<Rightarrow> (Inl AssertionError, s)
      | Some entry \<Rightarrow>
          (let s1 = (if entry = None then
                       (if scoring = ''accuracy'' then store_new scoring Accuracy_class s
                        else if scoring = ''r2'' then store_new scoring R2_class s
                        else s)
                     else s)
           in (case scorer_cache s1 scoring of
                 Some (Some result) \<Rightarrow> (Inr result, s1)
               | _ \<Rightarrow> (Inl AssertionError, s1))))"

text \<open>A run of calls, keeping the state each leaves behind.\<close>

fun get_scorers :: "string list \<Rightarrow> module_state \<Rightarrow> module_state" where
  "get_scorers [] s = s"
| "get_scorers (name # names) s = get_scorers names (snd (get_scorer name s))"

text \<open>The states of a name in the registry, as the specification names them.\<close>

datatype entry_state = Unregistered | Uninitialized | Initialized nat

definition entry_of :: "module_state \<Rightarrow> string \<Rightarrow> entry_state" where
  "entry_of s name =
     (case scorer_cache s name of
        None \<Rightarrow> Unregistered
      | Some None \<Rightarrow> Uninitialized
      | Some (Some r) \<Rightarrow> Initialized r)"

section \<open>Properties\<close>

subsection \<open>Auxiliary facts\<close>

lemma mixin_fields [simp]:
  "to_monoid (MetricMonoidMixin lift conv cmb) = lift"
  "from_monoid (MetricMonoidMixin lift conv cmb) = conv"
  "combine (MetricMonoidMixin lift conv cmb) = cmb"
  by (simp_all add: MetricMonoidMixin_def Let_def)

lemma mixin_score_data:
  "score_data (MetricMonoidMixin lift conv cmb) y_true y_pred X
     = (case lift (y_true, y_pred, X) of Inl e \<Rightarrow> Inl e | Inr m \<Rightarrow> conv m)"
  by (simp add: MetricMonoidMixin_def Let_def)

lemma mixin_score_estimator:
  "score_estimator (MetricMonoidMixin lift conv cmb) estimator X y
     = (case predict estimator X of
          Inl e \<Rightarrow> Inl e
        | Inr p \<Rightarrow> score_data (MetricMonoidMixin lift conv cmb) y p None)"
  by (cases "predict estimator X") (simp_all add: MetricMonoidMixin_def Let_def)

lemma mixin_single_batch:
  "score_data_batched (MetricMonoidMixin lift conv cmb) [b]
     = (case lift b of Inl e \<Rightarrow> Inl e | Inr m \<Rightarrow> conv m)"
  by (simp add: score_data_batched_def split: sum.splits)

text \<open>Conversions to a double: when they raise, and what they give otherwise.\<close>

lemma np_float64_zero [simp]: "np_float64 rnd 0 = Inr (Zero False)"
  by (simp add: np_float64_def)



















text \<open>What one call of \<^verbatim>\<open>get_scorer\<close> does, by the entry it finds.\<close>

lemma get_scorer_unregistered:
  "scorer_cache s scoring = None \<Longrightarrow> get_scorer scoring s = (Inl AssertionError, s)"
  by (simp add: get_scorer_def)

lemma get_scorer_initialized:
  "scorer_cache s scoring = Some (Some r) \<Longrightarrow> get_scorer scoring s = (Inr r, s)"
  by (simp add: get_scorer_def)

lemma get_scorer_first:
  "scorer_cache s scoring = Some None \<Longrightarrow> scoring = ''accuracy'' \<or> scoring = ''r2'' \<Longrightarrow>
   get_scorer scoring s
     = (Inr (length (heap s)),
        store_new scoring (if scoring = ''accuracy'' then Accuracy_class else R2_class) s)"
  by (auto simp: get_scorer_def store_new_def)

lemma get_scorer_unknown_entry:
  "scorer_cache s scoring = Some None \<Longrightarrow> scoring \<noteq> ''accuracy'' \<Longrightarrow> scoring \<noteq> ''r2'' \<Longrightarrow>
   get_scorer scoring s = (Inl AssertionError, s)"
  by (simp add: get_scorer_def)

lemma get_scorer_state:
  "snd (get_scorer scoring s) = s
   \<or> (scorer_cache s scoring = Some None
      \<and> (\<exists>c. snd (get_scorer scoring s) = store_new scoring c s))"
proof (cases "scorer_cache s scoring")
  case None
  then show ?thesis by (simp add: get_scorer_unregistered)
next
  case (Some entry)
  show ?thesis
  proof (cases entry)
    case None
    with Some have e: "scorer_cache s scoring = Some None" by simp
    show ?thesis
    proof (cases "scoring = ''accuracy'' \<or> scoring = ''r2''")
      case True
      with e show ?thesis by (metis get_scorer_first snd_conv)
    next
      case False
      with e show ?thesis by (simp add: get_scorer_unknown_entry)
    qed
  next
    case (Some r)
    with \<open>scorer_cache s scoring = Some entry\<close> show ?thesis
      by (simp add: get_scorer_initialized)
  qed
qed

lemma get_scorer_other:
  "m \<noteq> scoring \<Longrightarrow> scorer_cache (snd (get_scorer scoring s)) m = scorer_cache s m"
  using get_scorer_state [of scoring s] by (auto simp: store_new_def)

lemma get_scorer_keeps_unregistered:
  "scorer_cache s m = None \<Longrightarrow> scorer_cache (snd (get_scorer scoring s)) m = None"
  using get_scorer_state [of scoring s] by (auto simp: store_new_def)

lemma get_scorer_keeps_registered:
  "scorer_cache s m \<noteq> None \<Longrightarrow> scorer_cache (snd (get_scorer scoring s)) m \<noteq> None"
  using get_scorer_state [of scoring s] by (auto simp: store_new_def)

lemma get_scorer_keeps_initialized:
  "scorer_cache s m = Some (Some r) \<Longrightarrow> scorer_cache (snd (get_scorer scoring s)) m = Some (Some r)"
  using get_scorer_state [of scoring s] by (auto simp: store_new_def)

lemma get_scorer_heap: "\<exists>ys. heap (snd (get_scorer scoring s)) = heap s @ ys"
  using get_scorer_state [of scoring s] by (auto simp: store_new_def)

lemma get_scorers_other:
  "m \<notin> set names \<Longrightarrow> scorer_cache (get_scorers names s) m = scorer_cache s m"
  by (induction names arbitrary: s) (auto simp: get_scorer_other)

lemma get_scorers_keeps_unregistered:
  "scorer_cache s m = None \<Longrightarrow> scorer_cache (get_scorers names s) m = None"
  by (induction names arbitrary: s) (auto simp: get_scorer_keeps_unregistered)

lemma get_scorers_keeps_registered:
  "scorer_cache s m \<noteq> None \<Longrightarrow> scorer_cache (get_scorers names s) m \<noteq> None"
proof (induction names arbitrary: s)
  case Nil
  then show ?case by simp
next
  case (Cons name names)
  from Cons.prems have "scorer_cache (snd (get_scorer name s)) m \<noteq> None"
    by (rule get_scorer_keeps_registered)
  then show ?case by (simp add: Cons.IH)
qed

lemma get_scorers_keeps_initialized:
  "scorer_cache s m = Some (Some r) \<Longrightarrow> scorer_cache (get_scorers names s) m = Some (Some r)"
  by (induction names arbitrary: s) (auto simp: get_scorer_keeps_initialized)

lemma get_scorers_heap: "\<exists>ys. heap (get_scorers names s) = heap s @ ys"
proof (induction names arbitrary: s)
  case Nil
  then show ?case by simp
next
  case (Cons name names)
  obtain ys where "heap (snd (get_scorer name s)) = heap s @ ys"
    using get_scorer_heap by blast
  moreover obtain zs where
    "heap (get_scorers names (snd (get_scorer name s))) = heap (snd (get_scorer name s)) @ zs"
    using Cons.IH by blast
  ultimately show ?case by simp
qed

lemma entry_of_simps:
  "entry_of s name = Unregistered \<longleftrightarrow> scorer_cache s name = None"
  "entry_of s name = Uninitialized \<longleftrightarrow> scorer_cache s name = Some None"
  "entry_of s name = Initialized r \<longleftrightarrow> scorer_cache s name = Some (Some r)"
  by (auto simp: entry_of_def split: option.splits)

text \<open>
  Two groupings of a sum of three: each is within \<open>(2 u + u\<^sup>2) (|A| + |B| + |C|)\<close> of the
  exact sum when its two additions round within \<open>u\<close>.
\<close>

lemma one_sided_bound:
  fixes A B C s L u :: real
  assumes u: "0 \<le> u"
    and h1: "\<bar>s - (A + B)\<bar> \<le> u * \<bar>A + B\<bar>"
    and h2: "\<bar>L - (s + C)\<bar> \<le> u * \<bar>s + C\<bar>"
  shows "\<bar>L - (A + B + C)\<bar> \<le> (2 * u + u\<^sup>2) * (\<bar>A\<bar> + \<bar>B\<bar> + \<bar>C\<bar>)"
proof -
  let ?M = "\<bar>A\<bar> + \<bar>B\<bar>"
  have ab: "\<bar>A + B\<bar> \<le> ?M" by simp
  have e1: "\<bar>s - (A + B)\<bar> \<le> u * ?M"
    using h1 mult_left_mono [OF ab u] by linarith
  have "\<bar>s\<bar> \<le> \<bar>s - (A + B)\<bar> + \<bar>A + B\<bar>" by simp
  with e1 ab have s: "\<bar>s\<bar> \<le> u * ?M + ?M" by linarith
  have "\<bar>s + C\<bar> \<le> \<bar>s\<bar> + \<bar>C\<bar>" by simp
  with s have sc: "\<bar>s + C\<bar> \<le> u * ?M + ?M + \<bar>C\<bar>" by linarith
  have e2: "\<bar>L - (s + C)\<bar> \<le> u * (u * ?M + ?M + \<bar>C\<bar>)"
    using h2 mult_left_mono [OF sc u] by linarith
  have "\<bar>L - (A + B + C)\<bar> \<le> \<bar>L - (s + C)\<bar> + \<bar>s - (A + B)\<bar>" by simp
  with e1 e2 have "\<bar>L - (A + B + C)\<bar> \<le> u * (u * ?M + ?M + \<bar>C\<bar>) + u * ?M"
    by linarith
  also have "\<dots> = (2 * u + u\<^sup>2) * ?M + u * \<bar>C\<bar>"
    by (simp add: algebra_simps power2_eq_square)
  also have "\<dots> \<le> (2 * u + u\<^sup>2) * ?M + (2 * u + u\<^sup>2) * \<bar>C\<bar>"
  proof -
    have "u \<le> 2 * u + u\<^sup>2" using u by simp
    then have "u * \<bar>C\<bar> \<le> (2 * u + u\<^sup>2) * \<bar>C\<bar>"
      by (rule mult_right_mono) simp
    then show ?thesis by simp
  qed
  finally show ?thesis by (simp add: algebra_simps)
qed

lemma fadd_reassoc:
  assumes "reassoc_within u rnd x y z"
  shows "close_to (reassoc_tol u x y z) (fadd rnd (fadd rnd x y) z) (fadd rnd x (fadd rnd y z))"
proof -
  let ?A = "fval x" and ?B = "fval y" and ?C = "fval z"
  let ?s = "fadd rnd x y" and ?t = "fadd rnd y z"
  let ?L = "fadd rnd ?s z" and ?R = "fadd rnd x ?t"
  let ?E = "(2 * u + u\<^sup>2) * (\<bar>?A\<bar> + \<bar>?B\<bar> + \<bar>?C\<bar>)"
  from assms have u: "0 \<le> u"
    and h1: "\<bar>fval ?s - (?A + ?B)\<bar> \<le> u * \<bar>?A + ?B\<bar>"
    and h2: "\<bar>fval ?L - (fval ?s + ?C)\<bar> \<le> u * \<bar>fval ?s + ?C\<bar>"
    and h3: "\<bar>fval ?t - (?B + ?C)\<bar> \<le> u * \<bar>?B + ?C\<bar>"
    and h4: "\<bar>fval ?R - (?A + fval ?t)\<bar> \<le> u * \<bar>?A + fval ?t\<bar>"
    and fin: "is_finite ?L" "is_finite ?R"
    by (simp_all add: reassoc_within_def add_within_def)
  have l: "\<bar>fval ?L - (?A + ?B + ?C)\<bar> \<le> ?E"
    by (rule one_sided_bound [OF u h1 h2])
  from h3 h4 have h3': "\<bar>fval ?t - (?C + ?B)\<bar> \<le> u * \<bar>?C + ?B\<bar>"
    and h4': "\<bar>fval ?R - (fval ?t + ?A)\<bar> \<le> u * \<bar>fval ?t + ?A\<bar>"
    by (simp_all add: add.commute)
  have "\<bar>fval ?R - (?C + ?B + ?A)\<bar> \<le> (2 * u + u\<^sup>2) * (\<bar>?C\<bar> + \<bar>?B\<bar> + \<bar>?A\<bar>)"
    by (rule one_sided_bound [OF u h3' h4'])
  then have r: "\<bar>fval ?R - (?A + ?B + ?C)\<bar> \<le> ?E"
    by (simp add: add.commute add.left_commute)
  have "\<bar>fval ?L - fval ?R\<bar> \<le> \<bar>fval ?L - (?A + ?B + ?C)\<bar> + \<bar>fval ?R - (?A + ?B + ?C)\<bar>"
    by simp
  with l r have "\<bar>fval ?L - fval ?R\<bar> \<le> 2 * ?E" by linarith
  with fin show ?thesis
    by (simp add: close_to_def reassoc_tol_def algebra_simps)
qed

lemma AccuracyData_combine_assoc:
  "AccuracyData_combine (AccuracyData_combine a b) c
     = AccuracyData_combine a (AccuracyData_combine b c)"
  by (simp add: AccuracyData_combine_def)

lemma eighths_values:
  "eighths (17 / 16) = Fin (9 / 8)" "eighths (19 / 16) = Fin (5 / 4)"
  "eighths (1 / 8) = Fin (1 / 8)" "eighths (9 / 8) = Fin (9 / 8)"
  "eighths 2 = Fin 2" "eighths 3 = Fin 3"
  by (simp_all add: eighths_def Let_def)


lemma R2Data_combine_fields:
  assumes "R2Data_combine rnd a b = Inr ab"
  shows "py_add rnd (r2_n a) (r2_n b) = Inr (r2_n ab)"
    and "py_add rnd (r2_sum a) (r2_sum b) = Inr (r2_sum ab)"
    and "py_add rnd (r2_sum_sq a) (r2_sum_sq b) = Inr (r2_sum_sq ab)"
    and "py_add rnd (r2_res_sum_sq a) (r2_res_sum_sq b) = Inr (r2_res_sum_sq ab)"
  using assms by (auto simp: R2Data_combine_def split: sum.splits)

lemma R2Data_combine_value:
  "py_add rnd (r2_n a) (r2_n b) = Inr k \<Longrightarrow> py_add rnd (r2_sum a) (r2_sum b) = Inr s \<Longrightarrow>
   py_add rnd (r2_sum_sq a) (r2_sum_sq b) = Inr s2 \<Longrightarrow>
   py_add rnd (r2_res_sum_sq a) (r2_res_sum_sq b) = Inr e2 \<Longrightarrow>
   R2Data_combine rnd a b = Inr \<lparr>r2_n = k, r2_sum = s, r2_sum_sq = s2, r2_res_sum_sq = e2\<rparr>"
  by (simp add: R2Data_combine_def)

lemma py_add_same_kind:
  assumes "same_kind x y z"
  obtains xy yz l r where "py_add rnd x y = Inr xy" "py_add rnd xy z = Inr l"
    "py_add rnd y z = Inr yz" "py_add rnd x yz = Inr r"
  using assms by (cases x; cases y; cases z) simp_all

lemma py_add_field_close:
  assumes "field_within u rnd x y z"
    and "py_add rnd x y = Inr xy" "py_add rnd xy z = Inr l"
    and "py_add rnd y z = Inr yz" "py_add rnd x yz = Inr r"
  shows "py_close (field_tol u x y z) l r"
proof (cases x)
  case x: (PyInt a)
  with assms(1) obtain b c where "y = PyInt b" "z = PyInt c"
    by (cases y; cases z) simp_all
  with x assms(2-5) show ?thesis by auto
next
  case x: (PyFloat f)
  with assms(1) obtain g h where yz: "y = PyFloat g" "z = PyFloat h"
    by (cases y; cases z) simp_all
  with x assms(1) have "reassoc_within u rnd f g h" by simp
  then have "close_to (reassoc_tol u f g h) (fadd rnd (fadd rnd f g) h) (fadd rnd f (fadd rnd g h))"
    by (rule fadd_reassoc)
  with x yz assms(2-5) show ?thesis by auto
qed

text \<open>The steps of the two groupings, field by field.\<close>

lemma combine_left_steps:
  assumes "combine_left rnd p q r = Inr L"
  obtains pq where "R2Data_combine rnd p q = Inr pq" "R2Data_combine rnd pq r = Inr L"
  using assms by (auto simp: combine_left_def split: sum.splits)

lemma combine_right_steps:
  assumes "combine_right rnd p q r = Inr R"
  obtains qr where "R2Data_combine rnd q r = Inr qr" "R2Data_combine rnd p qr = Inr R"
  using assms by (auto simp: combine_right_def split: sum.splits)

lemma combine_same_kind:
  assumes "same_kind (r2_n p) (r2_n q) (r2_n r)" "same_kind (r2_sum p) (r2_sum q) (r2_sum r)"
    and "same_kind (r2_sum_sq p) (r2_sum_sq q) (r2_sum_sq r)"
    and "same_kind (r2_res_sum_sq p) (r2_res_sum_sq q) (r2_res_sum_sq r)"
  shows "\<exists>L R. combine_left rnd p q r = Inr L \<and> combine_right rnd p q r = Inr R"
proof -
  from assms(1) obtain k1 k2 kl kr where k: "py_add rnd (r2_n p) (r2_n q) = Inr k1"
    "py_add rnd k1 (r2_n r) = Inr kl" "py_add rnd (r2_n q) (r2_n r) = Inr k2"
    "py_add rnd (r2_n p) k2 = Inr kr"
    by (rule py_add_same_kind)
  from assms(2) obtain s1 s2 sl sr where s: "py_add rnd (r2_sum p) (r2_sum q) = Inr s1"
    "py_add rnd s1 (r2_sum r) = Inr sl" "py_add rnd (r2_sum q) (r2_sum r) = Inr s2"
    "py_add rnd (r2_sum p) s2 = Inr sr"
    by (rule py_add_same_kind)
  from assms(3) obtain t1 t2 tl tr where t: "py_add rnd (r2_sum_sq p) (r2_sum_sq q) = Inr t1"
    "py_add rnd t1 (r2_sum_sq r) = Inr tl" "py_add rnd (r2_sum_sq q) (r2_sum_sq r) = Inr t2"
    "py_add rnd (r2_sum_sq p) t2 = Inr tr"
    by (rule py_add_same_kind)
  from assms(4) obtain e1 e2 el er where e:
    "py_add rnd (r2_res_sum_sq p) (r2_res_sum_sq q) = Inr e1"
    "py_add rnd e1 (r2_res_sum_sq r) = Inr el"
    "py_add rnd (r2_res_sum_sq q) (r2_res_sum_sq r) = Inr e2"
    "py_add rnd (r2_res_sum_sq p) e2 = Inr er"
    by (rule py_add_same_kind)
  let ?pq = "\<lparr>r2_n = k1, r2_sum = s1, r2_sum_sq = t1, r2_res_sum_sq = e1\<rparr>"
  let ?qr = "\<lparr>r2_n = k2, r2_sum = s2, r2_sum_sq = t2, r2_res_sum_sq = e2\<rparr>"
  have pq: "R2Data_combine rnd p q = Inr ?pq"
    using k(1) s(1) t(1) e(1) by (rule R2Data_combine_value)
  have qr: "R2Data_combine rnd q r = Inr ?qr"
    using k(3) s(3) t(3) e(3) by (rule R2Data_combine_value)
  have "R2Data_combine rnd ?pq r
      = Inr \<lparr>r2_n = kl, r2_sum = sl, r2_sum_sq = tl, r2_res_sum_sq = el\<rparr>"
    by (rule R2Data_combine_value) (simp_all add: k s t e)
  with pq have l: "combine_left rnd p q r
      = Inr \<lparr>r2_n = kl, r2_sum = sl, r2_sum_sq = tl, r2_res_sum_sq = el\<rparr>"
    by (simp add: combine_left_def)
  have "R2Data_combine rnd p ?qr
      = Inr \<lparr>r2_n = kr, r2_sum = sr, r2_sum_sq = tr, r2_res_sum_sq = er\<rparr>"
    by (rule R2Data_combine_value) (simp_all add: k s t e)
  with qr have "combine_right rnd p q r
      = Inr \<lparr>r2_n = kr, r2_sum = sr, r2_sum_sq = tr, r2_res_sum_sq = er\<rparr>"
    by (simp add: combine_right_def)
  with l show ?thesis by blast
qed

lemma combine_fields_close:
  assumes l: "combine_left rnd p q r = Inr L" and r: "combine_right rnd p q r = Inr R"
  shows "field_within u rnd (r2_n p) (r2_n q) (r2_n r) \<Longrightarrow>
      py_close (field_tol u (r2_n p) (r2_n q) (r2_n r)) (r2_n L) (r2_n R)"
    and "field_within u rnd (r2_sum p) (r2_sum q) (r2_sum r) \<Longrightarrow>
      py_close (field_tol u (r2_sum p) (r2_sum q) (r2_sum r)) (r2_sum L) (r2_sum R)"
    and "field_within u rnd (r2_sum_sq p) (r2_sum_sq q) (r2_sum_sq r) \<Longrightarrow>
      py_close (field_tol u (r2_sum_sq p) (r2_sum_sq q) (r2_sum_sq r))
        (r2_sum_sq L) (r2_sum_sq R)"
    and "field_within u rnd (r2_res_sum_sq p) (r2_res_sum_sq q) (r2_res_sum_sq r) \<Longrightarrow>
      py_close (field_tol u (r2_res_sum_sq p) (r2_res_sum_sq q) (r2_res_sum_sq r))
        (r2_res_sum_sq L) (r2_res_sum_sq R)"
proof -
  from l obtain pq where pq: "R2Data_combine rnd p q = Inr pq" "R2Data_combine rnd pq r = Inr L"
    by (rule combine_left_steps)
  from r obtain qr where qr: "R2Data_combine rnd q r = Inr qr" "R2Data_combine rnd p qr = Inr R"
    by (rule combine_right_steps)
  note f1 = R2Data_combine_fields [OF pq(1)] and f2 = R2Data_combine_fields [OF pq(2)]
    and f3 = R2Data_combine_fields [OF qr(1)] and f4 = R2Data_combine_fields [OF qr(2)]
  show "field_within u rnd (r2_n p) (r2_n q) (r2_n r) \<Longrightarrow>
      py_close (field_tol u (r2_n p) (r2_n q) (r2_n r)) (r2_n L) (r2_n R)"
    by (rule py_add_field_close [OF _ f1(1) f2(1) f3(1) f4(1)])
  show "field_within u rnd (r2_sum p) (r2_sum q) (r2_sum r) \<Longrightarrow>
      py_close (field_tol u (r2_sum p) (r2_sum q) (r2_sum r)) (r2_sum L) (r2_sum R)"
    by (rule py_add_field_close [OF _ f1(2) f2(2) f3(2) f4(2)])
  show "field_within u rnd (r2_sum_sq p) (r2_sum_sq q) (r2_sum_sq r) \<Longrightarrow>
      py_close (field_tol u (r2_sum_sq p) (r2_sum_sq q) (r2_sum_sq r))
        (r2_sum_sq L) (r2_sum_sq R)"
    by (rule py_add_field_close [OF _ f1(3) f2(3) f3(3) f4(3)])
  show "field_within u rnd (r2_res_sum_sq p) (r2_res_sum_sq q) (r2_res_sum_sq r) \<Longrightarrow>
      py_close (field_tol u (r2_res_sum_sq p) (r2_res_sum_sq q) (r2_res_sum_sq r))
        (r2_res_sum_sq L) (r2_res_sum_sq R)"
    by (rule py_add_field_close [OF _ f1(4) f2(4) f3(4) f4(4)])
qed

subsection \<open>Scoring one batch\<close>

text \<open>
  C1. For both metrics and every pair of label arguments, \<^verbatim>\<open>score_data(y_true, y_pred)\<close>
  (with \<^verbatim>\<open>X\<close> left at its default \<^verbatim>\<open>None\<close>) gives exactly what \<^verbatim>\<open>score_data_batched\<close>
  gives on the one-element sequence \<^verbatim>\<open>[(y_true, y_pred, None)]\<close>: the same float, or
  the same exception when the batch does not lift.
\<close>

theorem score_data_single_batch:
  "score_data (Accuracy rnd env) y_true y_pred (None :: 'x option)
     = score_data_batched (Accuracy rnd env) [(y_true, y_pred, None :: 'x option)]
   \<and> score_data (R2 rnd env) y_true y_pred (None :: 'x option)
     = score_data_batched (R2 rnd env) [(y_true, y_pred, None :: 'x option)]"
  by (simp add: Accuracy_def R2_def mixin_score_data mixin_single_batch)

text \<open>
  C9. For both metrics, \<^verbatim>\<open>score_estimator(model, X, y)\<close> calls the model's \<^verbatim>\<open>predict\<close> on
  \<^verbatim>\<open>X\<close> and equals \<^verbatim>\<open>score_data(y, predictions)\<close> for the predictions it returns (an
  exception of \<^verbatim>\<open>predict\<close> propagates).
\<close>

theorem score_estimator_predicts_then_scores:
  "score_estimator (Accuracy rnd env) estimator (X :: 'x) y
     = (case predict estimator X of
          Inl e \<Rightarrow> Inl e
        | Inr predictions \<Rightarrow> score_data (Accuracy rnd env) y predictions (None :: 'x option))
   \<and> score_estimator (R2 rnd env) estimator X y
     = (case predict estimator X of
          Inl e \<Rightarrow> Inl e
        | Inr predictions \<Rightarrow> score_data (R2 rnd env) y predictions (None :: 'x option))"
  by (cases "predict estimator X") (simp_all add: Accuracy_def R2_def mixin_score_estimator)

text \<open>
  C10. A factory is callable: \<^verbatim>\<open>factory(estimator, X, y)\<close> returns what its
  \<^verbatim>\<open>score_estimator(estimator, X, y)\<close> returns.
\<close>

theorem call_is_score_estimator:
  "call self estimator X y = score_estimator self estimator X y"
  by (simp add: call_def)

subsection \<open>Batched scoring\<close>

text \<open>
  C5. For every factory, \<^verbatim>\<open>score_data_batched\<close> on an empty sequence of batches fails:
  \<^verbatim>\<open>functools.reduce\<close> has no first operand and raises \<^verbatim>\<open>TypeError\<close>, the exception that
  plays the part of the specification's \<^verbatim>\<open>EmptyBatchSequenceError\<close>.
\<close>

theorem score_data_batched_empty:
  "score_data_batched self [] = Inl TypeError"
  by (simp add: score_data_batched_def)

subsection \<open>Combining\<close>

text \<open>
  C2, as the code has it. For accuracy values the two groupings of three combinations are
  equal. For R2 values, whose fields are Python numbers: when the three values of every
  field are of one kind (three \<^verbatim>\<open>int\<close>s or three floats) neither grouping raises; and
  whenever both groupings return, a field whose three values are \<^verbatim>\<open>int\<close>s (as \<open>n\<close> is for
  integer labels) is the same \<^verbatim>\<open>int\<close> in both results, and a field whose three values
  \<open>x\<close>, \<open>y\<close>, \<open>z\<close> are floats is finite in both results with a difference of at most
  \<open>2 (2 u + u\<^sup>2) (|x| + |y| + |z|)\<close>, provided the four additions of the two groupings each
  give a finite double within the relative rounding error \<open>u\<close> of the exact sum (no
  overflow, no operand that is not-a-number or infinite).
\<close>

theorem combine_assoc_within_tolerance:
  "AccuracyData_combine (AccuracyData_combine a b) c
     = AccuracyData_combine a (AccuracyData_combine b c)
   \<and> (same_kind (r2_n p) (r2_n q) (r2_n r) \<and> same_kind (r2_sum p) (r2_sum q) (r2_sum r)
      \<and> same_kind (r2_sum_sq p) (r2_sum_sq q) (r2_sum_sq r)
      \<and> same_kind (r2_res_sum_sq p) (r2_res_sum_sq q) (r2_res_sum_sq r)
    \<longrightarrow> (\<exists>L R. combine_left rnd p q r = Inr L \<and> combine_right rnd p q r = Inr R))
   \<and> (combine_left rnd p q r = Inr L \<and> combine_right rnd p q r = Inr R \<longrightarrow>
        (field_within u rnd (r2_n p) (r2_n q) (r2_n r) \<longrightarrow>
           py_close (field_tol u (r2_n p) (r2_n q) (r2_n r)) (r2_n L) (r2_n R))
        \<and> (field_within u rnd (r2_sum p) (r2_sum q) (r2_sum r) \<longrightarrow>
           py_close (field_tol u (r2_sum p) (r2_sum q) (r2_sum r)) (r2_sum L) (r2_sum R))
        \<and> (field_within u rnd (r2_sum_sq p) (r2_sum_sq q) (r2_sum_sq r) \<longrightarrow>
           py_close (field_tol u (r2_sum_sq p) (r2_sum_sq q) (r2_sum_sq r))
             (r2_sum_sq L) (r2_sum_sq R))
        \<and> (field_within u rnd (r2_res_sum_sq p) (r2_res_sum_sq q) (r2_res_sum_sq r) \<longrightarrow>
           py_close (field_tol u (r2_res_sum_sq p) (r2_res_sum_sq q) (r2_res_sum_sq r))
             (r2_res_sum_sq L) (r2_res_sum_sq R)))"
proof (intro conjI impI)
  show "AccuracyData_combine (AccuracyData_combine a b) c
     = AccuracyData_combine a (AccuracyData_combine b c)"
    by (rule AccuracyData_combine_assoc)
next
  assume "same_kind (r2_n p) (r2_n q) (r2_n r) \<and> same_kind (r2_sum p) (r2_sum q) (r2_sum r)
      \<and> same_kind (r2_sum_sq p) (r2_sum_sq q) (r2_sum_sq r)
      \<and> same_kind (r2_res_sum_sq p) (r2_res_sum_sq q) (r2_res_sum_sq r)"
  then show "\<exists>L R. combine_left rnd p q r = Inr L \<and> combine_right rnd p q r = Inr R"
    by (intro combine_same_kind) simp_all
next
  assume h: "combine_left rnd p q r = Inr L \<and> combine_right rnd p q r = Inr R"
  then have l: "combine_left rnd p q r = Inr L" and r: "combine_right rnd p q r = Inr R"
    by simp_all
  note close = combine_fields_close [OF l r]
  {
    assume "field_within u rnd (r2_n p) (r2_n q) (r2_n r)"
    then show "py_close (field_tol u (r2_n p) (r2_n q) (r2_n r)) (r2_n L) (r2_n R)"
      by (rule close(1))
  next
    assume "field_within u rnd (r2_sum p) (r2_sum q) (r2_sum r)"
    then show "py_close (field_tol u (r2_sum p) (r2_sum q) (r2_sum r)) (r2_sum L) (r2_sum R)"
      by (rule close(2))
  next
    assume "field_within u rnd (r2_sum_sq p) (r2_sum_sq q) (r2_sum_sq r)"
    then show "py_close (field_tol u (r2_sum_sq p) (r2_sum_sq q) (r2_sum_sq r))
        (r2_sum_sq L) (r2_sum_sq R)"
      by (rule close(3))
  next
    assume "field_within u rnd (r2_res_sum_sq p) (r2_res_sum_sq q) (r2_res_sum_sq r)"
    then show "py_close (field_tol u (r2_res_sum_sq p) (r2_res_sum_sq q) (r2_res_sum_sq r))
        (r2_res_sum_sq L) (r2_res_sum_sq R)"
      by (rule close(4))
  }
qed

theorem combine_assoc_within_tolerance_witness:
  "AccuracyData_combine
       (AccuracyData_combine \<lparr>acc_match = 1, acc_total = 2\<rparr> \<lparr>acc_match = 2, acc_total = 3\<rparr>)
       \<lparr>acc_match = 0, acc_total = 1\<rparr>
     = AccuracyData_combine \<lparr>acc_match = 1, acc_total = 2\<rparr>
         (AccuracyData_combine \<lparr>acc_match = 2, acc_total = 3\<rparr> \<lparr>acc_match = 0, acc_total = 1\<rparr>)
   \<and> combine_left eighths
         \<lparr>r2_n = PyInt 1, r2_sum = PyFloat (Fin 1), r2_sum_sq = PyFloat (Fin 1),
          r2_res_sum_sq = PyFloat (Zero False)\<rparr>
         \<lparr>r2_n = PyInt 1, r2_sum = PyFloat (Fin (1 / 16)), r2_sum_sq = PyFloat (Fin 1),
          r2_res_sum_sq = PyFloat (Zero False)\<rparr>
         \<lparr>r2_n = PyInt 1, r2_sum = PyFloat (Fin (1 / 16)), r2_sum_sq = PyFloat (Fin 1),
          r2_res_sum_sq = PyFloat (Zero False)\<rparr>
       = Inr \<lparr>r2_n = PyInt 3, r2_sum = PyFloat (Fin (5 / 4)), r2_sum_sq = PyFloat (Fin 3),
              r2_res_sum_sq = PyFloat (Zero False)\<rparr>
   \<and> combine_right eighths
         \<lparr>r2_n = PyInt 1, r2_sum = PyFloat (Fin 1), r2_sum_sq = PyFloat (Fin 1),
          r2_res_sum_sq = PyFloat (Zero False)\<rparr>
         \<lparr>r2_n = PyInt 1, r2_sum = PyFloat (Fin (1 / 16)), r2_sum_sq = PyFloat (Fin 1),
          r2_res_sum_sq = PyFloat (Zero False)\<rparr>
         \<lparr>r2_n = PyInt 1, r2_sum = PyFloat (Fin (1 / 16)), r2_sum_sq = PyFloat (Fin 1),
          r2_res_sum_sq = PyFloat (Zero False)\<rparr>
       = Inr \<lparr>r2_n = PyInt 3, r2_sum = PyFloat (Fin (9 / 8)), r2_sum_sq = PyFloat (Fin 3),
              r2_res_sum_sq = PyFloat (Zero False)\<rparr>
   \<and> field_within (1 / 16) eighths (PyInt 1) (PyInt 1) (PyInt 1)
   \<and> py_close 0 (PyInt 3) (PyInt 3)
   \<and> field_within (1 / 16) eighths (PyFloat (Fin 1)) (PyFloat (Fin (1 / 16)))
         (PyFloat (Fin (1 / 16)))
   \<and> py_close (297 / 1024) (PyFloat (Fin (5 / 4))) (PyFloat (Fin (9 / 8)))
   \<and> field_within (1 / 16) eighths (PyFloat (Fin 1)) (PyFloat (Fin 1)) (PyFloat (Fin 1))
   \<and> py_close (99 / 128) (PyFloat (Fin 3)) (PyFloat (Fin 3))
   \<and> field_within (1 / 16) eighths (PyFloat (Zero False)) (PyFloat (Zero False))
         (PyFloat (Zero False))
   \<and> py_close 0 (PyFloat (Zero False)) (PyFloat (Zero False))"
proof -
  let ?p = "\<lparr>r2_n = PyInt 1, r2_sum = PyFloat (Fin 1), r2_sum_sq = PyFloat (Fin 1),
          r2_res_sum_sq = PyFloat (Zero False)\<rparr>"
  let ?q = "\<lparr>r2_n = PyInt 1, r2_sum = PyFloat (Fin (1 / 16)), r2_sum_sq = PyFloat (Fin 1),
          r2_res_sum_sq = PyFloat (Zero False)\<rparr>"
  let ?L = "\<lparr>r2_n = PyInt 3, r2_sum = PyFloat (Fin (5 / 4)), r2_sum_sq = PyFloat (Fin 3),
              r2_res_sum_sq = PyFloat (Zero False)\<rparr>"
  let ?R = "\<lparr>r2_n = PyInt 3, r2_sum = PyFloat (Fin (9 / 8)), r2_sum_sq = PyFloat (Fin 3),
              r2_res_sum_sq = PyFloat (Zero False)\<rparr>"
  have l: "combine_left eighths ?p ?q ?q = Inr ?L"
    by (simp add: combine_left_def R2Data_combine_def eighths_values)
  have r: "combine_right eighths ?p ?q ?q = Inr ?R"
    by (simp add: combine_right_def R2Data_combine_def eighths_values)
  have h1: "reassoc_within (1 / 16) eighths (Fin 1) (Fin (1 / 16)) (Fin (1 / 16))"
    by (simp add: reassoc_within_def add_within_def eighths_values)
  have h2: "reassoc_within (1 / 16) eighths (Fin 1) (Fin 1) (Fin 1)"
    by (simp add: reassoc_within_def add_within_def eighths_values)
  have h3: "reassoc_within (1 / 16) eighths (Zero False) (Zero False) (Zero False)"
    by (simp add: reassoc_within_def add_within_def)
  from l r h1 h2 h3 combine_assoc_within_tolerance
    [of "\<lparr>acc_match = 1, acc_total = 2\<rparr>" "\<lparr>acc_match = 2, acc_total = 3\<rparr>"
      "\<lparr>acc_match = 0, acc_total = 1\<rparr>" ?p ?q ?q eighths ?L ?R "1 / 16"]
  show ?thesis
    by (simp add: reassoc_tol_def power2_eq_square)
qed

text \<open>
  C2 as stated fails when an addition overflows: for the true values \<open>2 ^ 1023\<close>,
  \<open>2 ^ 1023\<close> and \<open>- (2 ^ 1023)\<close>, each a batch of its own predicted exactly, the field
  \<^verbatim>\<open>sum\<close> of one grouping is infinite and that of the other is \<open>2 ^ 1023\<close>. No tolerance
  relates the two.
\<close>

theorem R2Data_combine_overflow_counterexample:
  "combine_left exact
       \<lparr>r2_n = PyFloat (Fin 1), r2_sum = PyFloat (Fin (2 ^ 1023)),
        r2_sum_sq = PyFloat (Infty False), r2_res_sum_sq = PyFloat (Zero False)\<rparr>
       \<lparr>r2_n = PyFloat (Fin 1), r2_sum = PyFloat (Fin (2 ^ 1023)),
        r2_sum_sq = PyFloat (Infty False), r2_res_sum_sq = PyFloat (Zero False)\<rparr>
       \<lparr>r2_n = PyFloat (Fin 1), r2_sum = PyFloat (Fin (- (2 ^ 1023))),
        r2_sum_sq = PyFloat (Infty False), r2_res_sum_sq = PyFloat (Zero False)\<rparr>
     = Inr \<lparr>r2_n = PyFloat (Fin 3), r2_sum = PyFloat (Infty False),
            r2_sum_sq = PyFloat (Infty False), r2_res_sum_sq = PyFloat (Zero False)\<rparr>
   \<and> combine_right exact
       \<lparr>r2_n = PyFloat (Fin 1), r2_sum = PyFloat (Fin (2 ^ 1023)),
        r2_sum_sq = PyFloat (Infty False), r2_res_sum_sq = PyFloat (Zero False)\<rparr>
       \<lparr>r2_n = PyFloat (Fin 1), r2_sum = PyFloat (Fin (2 ^ 1023)),
        r2_sum_sq = PyFloat (Infty False), r2_res_sum_sq = PyFloat (Zero False)\<rparr>
       \<lparr>r2_n = PyFloat (Fin 1), r2_sum = PyFloat (Fin (- (2 ^ 1023))),
        r2_sum_sq = PyFloat (Infty False), r2_res_sum_sq = PyFloat (Zero False)\<rparr>
     = Inr \<lparr>r2_n = PyFloat (Fin 3), r2_sum = PyFloat (Fin (2 ^ 1023)),
            r2_sum_sq = PyFloat (Infty False), r2_res_sum_sq = PyFloat (Zero False)\<rparr>"
  by (simp add: combine_left_def combine_right_def R2Data_combine_def exact_def)

subsection \<open>Accuracy\<close>

text \<open>
  C8. For accuracy values \<open>a\<close> and \<open>b\<close> with \<open>0 \<le> match \<le> total\<close> each, \<^verbatim>\<open>a.combine(b)\<close>
  holds the sum of the two \<^verbatim>\<open>match\<close> counts and the sum of the two \<^verbatim>\<open>total\<close> counts, and
  satisfies \<open>0 \<le> match \<le> total\<close> again.
\<close>

theorem AccuracyData_combine_sum_inv:
  "acc_inv a \<Longrightarrow> acc_inv b \<Longrightarrow>
     acc_match (AccuracyData_combine a b) = acc_match a + acc_match b
   \<and> acc_total (AccuracyData_combine a b) = acc_total a + acc_total b
   \<and> acc_inv (AccuracyData_combine a b)"
  by (simp add: acc_inv_def AccuracyData_combine_def)

theorem AccuracyData_combine_sum_inv_witness:
  "acc_inv \<lparr>acc_match = 1, acc_total = 2\<rparr> \<and> acc_inv \<lparr>acc_match = 2, acc_total = 3\<rparr>
   \<and> acc_match (AccuracyData_combine \<lparr>acc_match = 1, acc_total = 2\<rparr>
        \<lparr>acc_match = 2, acc_total = 3\<rparr>) = 3
   \<and> acc_total (AccuracyData_combine \<lparr>acc_match = 1, acc_total = 2\<rparr>
        \<lparr>acc_match = 2, acc_total = 3\<rparr>) = 5
   \<and> acc_inv (AccuracyData_combine \<lparr>acc_match = 1, acc_total = 2\<rparr>
        \<lparr>acc_match = 2, acc_total = 3\<rparr>)"
proof -
  have a: "acc_inv \<lparr>acc_match = 1, acc_total = 2\<rparr>"
    and b: "acc_inv \<lparr>acc_match = 2, acc_total = 3\<rparr>"
    by (simp_all add: acc_inv_def)
  from AccuracyData_combine_sum_inv [OF a b] a b show ?thesis by simp
qed




subsection \<open>R2\<close>




subsection \<open>The registry\<close>

text \<open>
  C6. For every name other than \<^verbatim>\<open>"accuracy"\<close> and \<^verbatim>\<open>"r2"\<close>, \<^verbatim>\<open>get_scorer(name)\<close> fails,
  in the state after any calls of \<^verbatim>\<open>get_scorer\<close>: the assertion that the name is a key of
  the cache raises \<^verbatim>\<open>AssertionError\<close>, the exception that plays the part of the
  specification's \<^verbatim>\<open>UnknownMetricError\<close>, and the state is left as it was.
\<close>

theorem get_scorer_unknown_name:
  "scoring \<noteq> ''accuracy'' \<Longrightarrow> scoring \<noteq> ''r2'' \<Longrightarrow>
   get_scorer scoring (get_scorers names initial_state)
     = (Inl AssertionError, get_scorers names initial_state)"
proof -
  assume "scoring \<noteq> ''accuracy''" "scoring \<noteq> ''r2''"
  then have "scorer_cache initial_state scoring = None"
    by (simp add: initial_state_def)
  then have "scorer_cache (get_scorers names initial_state) scoring = None"
    by (rule get_scorers_keeps_unregistered)
  then show ?thesis by (rule get_scorer_unregistered)
qed

theorem get_scorer_unknown_name_witness:
  "''f1'' \<noteq> ''accuracy'' \<and> ''f1'' \<noteq> ''r2''
   \<and> get_scorer ''f1'' (get_scorers [''accuracy'', ''r2''] initial_state)
     = (Inl AssertionError, get_scorers [''accuracy'', ''r2''] initial_state)"
  using get_scorer_unknown_name [of "''f1''" "[''accuracy'', ''r2'']"] by simp

text \<open>
  C7. For a registered name, the first call of \<^verbatim>\<open>get_scorer(name)\<close> (after any calls with
  other names) finds the entry uninitialized, builds a new object of the name's class and
  stores it; every later call with that name, after any calls in between, returns the very
  same object, which is still in the heap with its class. From any state: an initialized
  entry keeps its object over any calls, an uninitialized entry never becomes unregistered,
  and an unregistered name stays unregistered.
\<close>

theorem get_scorer_singleton:
  "((name = ''accuracy'' \<or> name = ''r2'') \<and> name \<notin> set before \<longrightarrow>
     (let s = get_scorers before initial_state;
          r = length (heap s);
          c = (if name = ''accuracy'' then Accuracy_class else R2_class);
          s1 = snd (get_scorer name s);
          s2 = get_scorers later s1
      in entry_of s name = Uninitialized
         \<and> fst (get_scorer name s) = Inr r
         \<and> entry_of s1 name = Initialized r
         \<and> heap s1 = heap s @ [c]
         \<and> get_scorer name s2 = (Inr r, s2)
         \<and> entry_of s2 name = Initialized r
         \<and> heap s2 ! r = c))
   \<and> (entry_of t n = Initialized q \<longrightarrow>
        entry_of (get_scorers names t) n = Initialized q
        \<and> get_scorer n (get_scorers names t) = (Inr q, get_scorers names t))
   \<and> (entry_of t n = Uninitialized \<longrightarrow> entry_of (get_scorers names t) n \<noteq> Unregistered)
   \<and> (entry_of t n = Unregistered \<longrightarrow> entry_of (get_scorers names t) n = Unregistered)"
proof -
  have first: "entry_of s name = Uninitialized
         \<and> fst (get_scorer name s) = Inr r
         \<and> entry_of s1 name = Initialized r
         \<and> heap s1 = heap s @ [c]
         \<and> get_scorer name s2 = (Inr r, s2)
         \<and> entry_of s2 name = Initialized r
         \<and> heap s2 ! r = c"
    if reg: "name = ''accuracy'' \<or> name = ''r2''" and fresh: "name \<notin> set before"
      and s: "s = get_scorers before initial_state" and r: "r = length (heap s)"
      and c: "c = (if name = ''accuracy'' then Accuracy_class else R2_class)"
      and s1: "s1 = snd (get_scorer name s)" and s2: "s2 = get_scorers later s1"
    for s r c s1 s2
  proof -
    from reg have "scorer_cache initial_state name = Some None"
      by (auto simp: initial_state_def)
    with fresh s have uninit: "scorer_cache s name = Some None"
      by (simp add: get_scorers_other)
    from get_scorer_first [OF uninit reg] r c
    have call: "get_scorer name s = (Inr r, store_new name c s)"
      by simp
    with s1 have s1_eq: "s1 = store_new name c s"
      by simp
    then have init1: "scorer_cache s1 name = Some (Some r)" and heap1: "heap s1 = heap s @ [c]"
      by (simp_all add: store_new_def r)
    from init1 s2 have init2: "scorer_cache s2 name = Some (Some r)"
      by (simp add: get_scorers_keeps_initialized)
    obtain ys where "heap s2 = heap s1 @ ys"
      using get_scorers_heap s2 by blast
    with heap1 r have "heap s2 ! r = c"
      by simp
    with uninit call init1 heap1 init2 show ?thesis
      by (simp add: entry_of_simps get_scorer_initialized)
  qed
  have kept: "entry_of (get_scorers names t) n = Initialized q
        \<and> get_scorer n (get_scorers names t) = (Inr q, get_scorers names t)"
    if "entry_of t n = Initialized q"
    using that by (simp add: entry_of_simps get_scorers_keeps_initialized get_scorer_initialized)
  have registered: "entry_of (get_scorers names t) n \<noteq> Unregistered"
    if "entry_of t n = Uninitialized"
    using that get_scorers_keeps_registered [of t n names] by (simp add: entry_of_simps)
  have unregistered: "entry_of (get_scorers names t) n = Unregistered"
    if "entry_of t n = Unregistered"
    using that by (simp add: entry_of_simps get_scorers_keeps_unregistered)
  from first kept registered unregistered show ?thesis
    unfolding Let_def by blast
qed

theorem get_scorer_singleton_witness:
  "(let s = get_scorers [''r2''] initial_state;
        s1 = snd (get_scorer ''accuracy'' s);
        s2 = get_scorers [''r2'', ''accuracy'', ''f1''] s1
    in entry_of s ''accuracy'' = Uninitialized
       \<and> fst (get_scorer ''accuracy'' s) = Inr 1
       \<and> entry_of s1 ''accuracy'' = Initialized 1
       \<and> heap s1 = [R2_class, Accuracy_class]
       \<and> get_scorer ''accuracy'' s2 = (Inr 1, s2)
       \<and> entry_of s2 ''accuracy'' = Initialized 1
       \<and> heap s2 ! 1 = Accuracy_class)
   \<and> entry_of (get_scorers [''accuracy''] initial_state) ''accuracy'' = Initialized 0
   \<and> entry_of (get_scorers [''r2''] (get_scorers [''accuracy''] initial_state)) ''accuracy''
       = Initialized 0
   \<and> entry_of initial_state ''r2'' = Uninitialized
   \<and> entry_of (get_scorers [''accuracy''] initial_state) ''r2'' \<noteq> Unregistered
   \<and> entry_of initial_state ''f1'' = Unregistered
   \<and> entry_of (get_scorers [''f1'', ''r2''] initial_state) ''f1'' = Unregistered"
proof -
  have e1: "entry_of (get_scorers [''accuracy''] initial_state) ''accuracy'' = Initialized 0"
    by (simp add: initial_state_def get_scorer_def store_new_def entry_of_def)
  have e2: "entry_of initial_state ''r2'' = Uninitialized"
    and e3: "entry_of initial_state ''f1'' = Unregistered"
    by (simp_all add: initial_state_def entry_of_def)
  have h: "(''accuracy'' = ''accuracy'' \<or> ''accuracy'' = ''r2'') \<and> ''accuracy'' \<notin> set [''r2'']"
    by simp
  have len: "length (heap (get_scorers [''r2''] initial_state)) = 1"
    by (simp add: initial_state_def get_scorer_def store_new_def)
  have hp: "heap (get_scorers [''r2''] initial_state) = [R2_class]"
    by (simp add: initial_state_def get_scorer_def store_new_def)
  from get_scorer_singleton
    [of "''accuracy''" "[''r2'']" "[''r2'', ''accuracy'', ''f1'']"
      "get_scorers [''accuracy''] initial_state" "''accuracy''" 0 "[''r2'']"]
    get_scorer_singleton
    [of "''accuracy''" "[''r2'']" "[]" initial_state "''r2''" 0 "[''accuracy'']"]
    get_scorer_singleton
    [of "''accuracy''" "[''r2'']" "[]" initial_state "''f1''" 0 "[''f1'', ''r2'']"]
    h e1 e2 e3
  show ?thesis
    unfolding Let_def len hp by simp
qed

end
